theory Spec2Isabelle
  imports Main
begin

section \<open>Python values\<close>

text \<open>
  The notebook passes around Python ints, strings, \<open>None\<close> and flat dictionaries with
  string keys. Python ints are unbounded and are modelled by \<open>int\<close>. Floats are not
  modelled: every value below is an int, a string, \<open>None\<close> or a dictionary of those.
\<close>

datatype atom = PInt int | PStr string | PNone

datatype pyval = Atom atom | Dict "string \<rightharpoonup> atom"

datatype pyexc = KeyError string | TypeError | AssertionError string | OtherError string

text \<open>\<open>d[k]\<close>: a missing key raises \<open>KeyError\<close>, a value that is no dictionary raises
  \<open>TypeError\<close>.\<close>

fun subscript :: "pyval \<Rightarrow> string \<Rightarrow> pyexc + atom" where
  "subscript (Dict d) k = (case d k of None \<Rightarrow> Inl (KeyError k) | Some v \<Rightarrow> Inr v)"
| "subscript (Atom v) k = Inl TypeError"

text \<open>\<open>str(n)\<close> for an int, and the formatting of a value inside an f-string.\<close>

fun str_nat :: "nat \<Rightarrow> string" where
  "str_nat n = (if n < 10 then [char_of (48 + n)]
                else str_nat (n div 10) @ [char_of (48 + n mod 10)])"

declare str_nat.simps [simp del]

definition str_int :: "int \<Rightarrow> string" where
  "str_int i = (if i < 0 then CHR ''-'' # str_nat (nat (- i)) else str_nat (nat i))"

fun py_str :: "atom \<Rightarrow> string" where
  "py_str (PInt i) = str_int i"
| "py_str (PStr s) = s"
| "py_str PNone = ''None''"

section \<open>The oracle: Euclid's algorithm\<close>

text \<open>
  \<^verbatim>\<open>
  def gcd(a, b, *args, **kwargs):
      while b:
          a, b = b, a % b
      return {'gcd':a}
  \<close>
  The loop state is the pair \<open>(a, b)\<close>. Python's \<open>%\<close> on ints takes the sign of the
  divisor, as \<open>mod\<close> on \<open>int\<close> does; the body only runs with \<open>b \<noteq> 0\<close>, so the
  \<open>ZeroDivisionError\<close> of \<open>a % 0\<close> cannot arise. \<open>args\<close> and \<open>kwargs\<close> are what
  Python binds to \<open>*args\<close> and \<open>**kwargs\<close>: the positional arguments after the second
  and the keyword arguments named neither \<open>a\<close> nor \<open>b\<close>.
\<close>

definition gcd_step :: "int \<times> int \<Rightarrow> int \<times> int" where
  "gcd_step s = (snd s, fst s mod snd s)"

function gcd_loop :: "int \<times> int \<Rightarrow> int" where
  "gcd_loop s = (if snd s \<noteq> 0 then gcd_loop (gcd_step s) else fst s)"
  by pat_completeness auto
termination
  by (relation "measure (\<lambda>s. nat \<bar>snd s\<bar>)") (auto simp: gcd_step_def abs_mod_less)

declare gcd_loop.simps [simp del]

text \<open>The same loop with a bound on the number of times the body may run: \<open>None\<close> when
  the guard still holds after \<open>n\<close> executions of the body.\<close>

fun gcd_fuel :: "nat \<Rightarrow> int \<times> int \<Rightarrow> int option" where
  "gcd_fuel 0 s = (if snd s \<noteq> 0 then None else Some (fst s))"
| "gcd_fuel (Suc n) s = (if snd s \<noteq> 0 then gcd_fuel n (gcd_step s) else Some (fst s))"

definition gcd_py :: "int \<Rightarrow> int \<Rightarrow> pyval list \<Rightarrow> (string \<rightharpoonup> pyval) \<Rightarrow> pyval" where
  "gcd_py a b args kwargs = Dict [''gcd'' \<mapsto> PInt (gcd_loop (a, b))]"

section \<open>The differential verifier\<close>

text \<open>
  \<^verbatim>\<open>
  def test_gcd_function(a, b, gcd_function, solver):
      gcd_standard = gcd(a, b)['gcd']
      gcd_mip_result = gcd_function(a, b, solver=solver)
      gcd_mip = gcd_mip_result['gcd']
      assert gcd_standard == gcd_mip, \
          f"Failed for gcd_ip0 with a={a}, b={b}, gcd_ip={gcd_mip}, termination message: {gcd_mip_result['termination_message']}"
  \<close>
  This is the body run on one sampled pair; the sampling itself belongs to the
  \<open>hypothesis\<close> library. A candidate takes \<open>a\<close>, \<open>b\<close> and its keyword arguments and
  either raises or returns a value. On the values modelled here Python's \<open>==\<close> is
  equality of atoms. The message of the \<open>assert\<close> is only built when the comparison
  fails, and building it reads \<open>gcd_mip_result['termination_message']\<close>.
\<close>

type_synonym candidate = "int \<Rightarrow> int \<Rightarrow> (string \<rightharpoonup> pyval) \<Rightarrow> pyexc + pyval"

definition failure_message :: "int \<Rightarrow> int \<Rightarrow> atom \<Rightarrow> atom \<Rightarrow> string" where
  "failure_message a b gcd_mip tm =
     ''Failed for gcd_ip0 with a='' @ str_int a @ '', b='' @ str_int b @
     '', gcd_ip='' @ py_str gcd_mip @ '', termination message: '' @ py_str tm"

definition test_gcd_function :: "int \<Rightarrow> int \<Rightarrow> candidate \<Rightarrow> pyval \<Rightarrow> pyexc + unit" where
  "test_gcd_function a b gcd_function solver =
     (case subscript (gcd_py a b [] Map.empty) ''gcd'' of
        Inl e \<Rightarrow> Inl e
      | Inr gcd_standard \<Rightarrow>
     (case gcd_function a b [''solver'' \<mapsto> solver] of
        Inl e \<Rightarrow> Inl e
      | Inr gcd_mip_result \<Rightarrow>
     (case subscript gcd_mip_result ''gcd'' of
        Inl e \<Rightarrow> Inl e
      | Inr gcd_mip \<Rightarrow>
     if gcd_standard = gcd_mip then Inr ()
     else (case subscript gcd_mip_result ''termination_message'' of
             Inl e \<Rightarrow> Inl e
           | Inr tm \<Rightarrow> Inl (AssertionError (failure_message a b gcd_mip tm))))))"

text \<open>The oracle passed as its own candidate, as in
  \<^verbatim>\<open>test_gcd_function(gcd_function=gcd, solver='cbc')\<close>: the keyword argument
  \<open>solver\<close> lands in \<open>**kwargs\<close>.\<close>

definition gcd_candidate :: candidate where
  "gcd_candidate a b kwargs = Inr (gcd_py a b [] kwargs)"

section \<open>Properties of the loop\<close>

lemma gcd_loop_zero: "gcd_loop (a, 0) = a"
  by (simp add: gcd_loop.simps)

lemma gcd_loop_rec: "b \<noteq> 0 \<Longrightarrow> gcd_loop (a, b) = gcd_loop (b, a mod b)"
  by (simp add: gcd_loop.simps [of "(a, b)"] gcd_step_def)

text \<open>On non-negative inputs the loop computes the greatest common divisor of the
  library: each pass keeps \<open>gcd a b\<close> unchanged.\<close>

lemma gcd_loop_gcd: "0 \<le> a \<Longrightarrow> 0 \<le> b \<Longrightarrow> gcd_loop (a, b) = gcd a b"
proof (induction "(a, b)" arbitrary: a b rule: gcd_loop.induct)
  case 1
  show ?case
  proof (cases "b = 0")
    case True
    with "1.prems" show ?thesis by (simp add: gcd_loop_zero)
  next
    case False
    with "1.prems" have pos: "0 < b" by simp
    have "gcd_loop (a, b) = gcd_loop (b, a mod b)"
      using False by (rule gcd_loop_rec)
    also have "\<dots> = gcd b (a mod b)"
      using "1.hyps" [of b "a mod b"] False pos "1.prems" by (simp add: gcd_step_def)
    also have "\<dots> = gcd a b"
      by (simp add: gcd_red_int [of a b])
    finally show ?thesis .
  qed
qed

lemma gcd_loop_pos: "0 < a \<Longrightarrow> 0 < b \<Longrightarrow> 0 < gcd_loop (a, b)"
  by (simp add: gcd_loop_gcd)

text \<open>With a non-negative second component \<open>b\<close>, \<open>b\<close> executions of the body are
  enough for the guard to fail.\<close>

lemma gcd_fuel_enough:
  "0 \<le> b \<Longrightarrow> nat b \<le> n \<Longrightarrow> gcd_fuel n (a, b) = Some (gcd_loop (a, b))"
proof (induction n arbitrary: a b)
  case 0
  then have "b = 0" by simp
  then show ?case by (simp add: gcd_loop_zero)
next
  case (Suc n)
  show ?case
  proof (cases "b = 0")
    case True
    then show ?thesis by (simp add: gcd_loop_zero)
  next
    case False
    with Suc.prems have pos: "0 < b" by simp
    then have lo: "0 \<le> a mod b" and hi: "a mod b < b" by simp_all
    from hi Suc.prems have "nat (a mod b) \<le> n" by linarith
    with lo have "gcd_fuel n (b, a mod b) = Some (gcd_loop (b, a mod b))"
      by (rule Suc.IH)
    with False show ?thesis
      by (simp add: gcd_step_def gcd_loop_rec)
  qed
qed

lemma subscript_gcd_py:
  "subscript (gcd_py a b args kwargs) ''gcd'' = Inr (PInt (gcd_loop (a, b)))"
  by (simp add: gcd_py_def)

section \<open>The oracle\<close>

text \<open>
  C1. For all integers \<open>a\<close>, \<open>b\<close> between 1 and 100 the value \<open>gcd(a, b)['gcd']\<close> divides
  \<open>a\<close> and \<open>b\<close>, and no integer greater than it divides both.
\<close>

theorem gcd_py_greatest_common_divisor:
  assumes "1 \<le> a" "a \<le> 100" "1 \<le> b" "b \<le> 100"
  shows "subscript (gcd_py a b [] Map.empty) ''gcd'' = Inr (PInt (gcd_loop (a, b))) \<and>
         gcd_loop (a, b) dvd a \<and> gcd_loop (a, b) dvd b \<and>
         \<not> (\<exists>d. gcd_loop (a, b) < d \<and> d dvd a \<and> d dvd b)"
proof -
  from assms have g: "gcd_loop (a, b) = gcd a b"
    by (simp add: gcd_loop_gcd)
  from assms have pos: "0 < gcd a b" by simp
  have "d \<le> gcd a b" if "d dvd a" "d dvd b" for d
  proof -
    from that have "d dvd gcd a b" by simp
    then show ?thesis using pos by (rule zdvd_imp_le)
  qed
  then have "\<not> (\<exists>d. gcd a b < d \<and> d dvd a \<and> d dvd b)"
    by (auto simp: not_less)
  with g show ?thesis
    by (simp add: subscript_gcd_py)
qed

theorem gcd_py_greatest_common_divisor_witness:
  "(1::int) \<le> 48 \<and> (48::int) \<le> 100 \<and> (1::int) \<le> 18 \<and> (18::int) \<le> 100 \<and>
   gcd_loop (48, 18) = 6 \<and>
   subscript (gcd_py 48 18 [] Map.empty) ''gcd'' = Inr (PInt 6) \<and>
   (6::int) dvd 48 \<and> (6::int) dvd 18 \<and>
   \<not> (\<exists>d::int. 6 < d \<and> d dvd 48 \<and> d dvd 18)"
proof -
  have e: "gcd_loop (48, 18) = 6" by code_simp
  show ?thesis
    using gcd_py_greatest_common_divisor [of 48 18] by (simp add: e)
qed

text \<open>
  C4. For positive \<open>a\<close>, \<open>b\<close> the oracle returns a dictionary whose only key \<open>'gcd'\<close>
  holds a positive integer, the greatest common divisor of \<open>a\<close> and \<open>b\<close>.
\<close>

theorem gcd_py_returns_dict:
  assumes "0 < a" "0 < b"
  shows "gcd_py a b args kwargs = Dict [''gcd'' \<mapsto> PInt (gcd a b)] \<and> 0 < gcd a b \<and>
         subscript (gcd_py a b args kwargs) ''gcd'' = Inr (PInt (gcd a b))"
  using assms by (simp add: gcd_py_def gcd_loop_gcd)

theorem gcd_py_returns_dict_witness:
  "(0::int) < 13 \<and> (0::int) < 19 \<and> gcd (13::int) 19 = 1 \<and>
   gcd_py 13 19 [] Map.empty = Dict [''gcd'' \<mapsto> PInt 1] \<and>
   subscript (gcd_py 13 19 [] Map.empty) ''gcd'' = Inr (PInt 1)"
proof -
  have e: "gcd (13::int) 19 = 1" by code_simp
  show ?thesis
    using gcd_py_returns_dict [of 13 19 "[]" Map.empty] by (simp add: e)
qed

text \<open>The result of the oracle on \<open>(13, 19)\<close> is the dictionary \<open>{'gcd': 1}\<close> printed in
  the notebook, not the integer \<open>1\<close>.\<close>

theorem gcd_py_not_integer_counterexample:
  "gcd_py 13 19 [] Map.empty = Dict [''gcd'' \<mapsto> PInt 1] \<and>
   gcd_py 13 19 [] Map.empty \<noteq> Atom (PInt 1)"
proof -
  have "gcd_loop (13, 19) = 1" by code_simp
  then show ?thesis by (simp add: gcd_py_def)
qed

text \<open>
  C5. With \<open>b = 0\<close> on entry the loop returns \<open>a\<close> without running its body (no
  execution of the body is allowed by fuel \<open>0\<close>), and the oracle's result holds \<open>a\<close>
  unchanged, for every \<open>a\<close>.
\<close>

theorem gcd_py_b_zero:
  "gcd_fuel 0 (a, 0) = Some a \<and> gcd_py a 0 args kwargs = Dict [''gcd'' \<mapsto> PInt a]"
  by (simp add: gcd_py_def gcd_loop_zero)

text \<open>
  C6. For positive \<open>a\<close>, \<open>b\<close> one pass of the loop leads to a state whose first component
  is positive and whose second component is non-negative and smaller than \<open>b\<close>, so the
  same holds at every later pass; and the loop returns after at most \<open>b\<close> passes.
\<close>

theorem gcd_loop_terminates:
  assumes "0 < a" "0 < b"
  shows "0 < fst (gcd_step (a, b)) \<and> 0 \<le> snd (gcd_step (a, b)) \<and>
         snd (gcd_step (a, b)) < b \<and>
         gcd_fuel (nat b) (a, b) = Some (gcd_loop (a, b))"
proof -
  from assms have "gcd_fuel (nat b) (a, b) = Some (gcd_loop (a, b))"
    by (simp add: gcd_fuel_enough)
  with assms show ?thesis
    by (simp add: gcd_step_def)
qed

theorem gcd_loop_terminates_witness:
  "(0::int) < 48 \<and> (0::int) < 18 \<and> gcd_step (48, 18) = (18, 12) \<and>
   gcd_fuel 18 (48, 18) = Some 6 \<and> gcd_loop (48, 18) = 6"
proof -
  have e: "gcd_loop (48, 18) = 6" by code_simp
  have s: "gcd_step (48, 18) = (18, 12)" by (simp add: gcd_step_def)
  show ?thesis
    using gcd_loop_terminates [of 48 18] by (simp add: e s)
qed

text \<open>
  C7. For positive \<open>a\<close>, \<open>b\<close> the oracle gives the same result on \<open>(a, b)\<close> and \<open>(b, a)\<close>.
\<close>

theorem gcd_py_commutative:
  assumes "0 < a" "0 < b"
  shows "gcd_py a b [] Map.empty = gcd_py b a [] Map.empty"
  using assms by (simp add: gcd_py_def gcd_loop_gcd gcd.commute)

theorem gcd_py_commutative_witness:
  "(0::int) < 48 \<and> (0::int) < 18 \<and> gcd_py 48 18 [] Map.empty = gcd_py 18 48 [] Map.empty"
  using gcd_py_commutative [of 48 18] by simp

text \<open>
  C8. For every \<open>a \<ge> 1\<close> the value of \<open>gcd(a, 1)\<close> is \<open>1\<close> and the value of \<open>gcd(a, a)\<close>
  is \<open>a\<close>.
\<close>

theorem gcd_py_boundary:
  assumes "1 \<le> a"
  shows "subscript (gcd_py a 1 [] Map.empty) ''gcd'' = Inr (PInt 1) \<and>
         subscript (gcd_py a a [] Map.empty) ''gcd'' = Inr (PInt a)"
  using assms by (simp add: subscript_gcd_py gcd_loop_gcd)

theorem gcd_py_boundary_witness:
  "(1::int) \<le> 7 \<and> subscript (gcd_py 7 1 [] Map.empty) ''gcd'' = Inr (PInt 1) \<and>
   subscript (gcd_py 7 7 [] Map.empty) ''gcd'' = Inr (PInt 7)"
  using gcd_py_boundary [of 7] by simp

text \<open>
  C9. The values of the oracle on \<open>(13, 19)\<close>, \<open>(9, 27)\<close>, \<open>(2, 2)\<close> and \<open>(48, 18)\<close> are
  \<open>1\<close>, \<open>9\<close>, \<open>2\<close> and \<open>6\<close>.
\<close>

theorem gcd_py_scenarios:
  "subscript (gcd_py 13 19 [] Map.empty) ''gcd'' = Inr (PInt 1) \<and>
   subscript (gcd_py 9 27 [] Map.empty) ''gcd'' = Inr (PInt 9) \<and>
   subscript (gcd_py 2 2 [] Map.empty) ''gcd'' = Inr (PInt 2) \<and>
   subscript (gcd_py 48 18 [] Map.empty) ''gcd'' = Inr (PInt 6)"
proof -
  have "gcd_loop (13, 19) = 1" by code_simp
  moreover have "gcd_loop (9, 27) = 9" by code_simp
  moreover have "gcd_loop (2, 2) = 2" by code_simp
  moreover have "gcd_loop (48, 18) = 6" by code_simp
  ultimately show ?thesis by (simp add: subscript_gcd_py)
qed

text \<open>
  C10. The oracle ignores its extra positional and keyword arguments: its result is a
  function of \<open>a\<close> and \<open>b\<close> alone. Passed to the verifier as the candidate, with the
  keyword argument \<open>solver\<close>, it passes on every pair.
\<close>

theorem gcd_py_ignores_extra_arguments:
  "gcd_py a b args kwargs = gcd_py a b [] Map.empty \<and>
   gcd_candidate a b [''solver'' \<mapsto> solver] = Inr (gcd_py a b [] Map.empty) \<and>
   test_gcd_function a b gcd_candidate solver = Inr ()"
  by (simp add: gcd_py_def gcd_candidate_def test_gcd_function_def)

section \<open>The verifier\<close>



text \<open>
  C2. On the pair \<open>(2, 2)\<close> a candidate whose result has the wrong value \<open>0\<close> under
  \<open>'gcd'\<close> and carries its message under the key \<open>'Termination Message'\<close>, as the
  solver-backed functions of the notebook do, makes the verifier raise
  \<open>KeyError('termination_message')\<close> while it builds the message of the assertion: the
  mismatch itself is not what is raised.
\<close>

theorem test_gcd_function_missing_key:
  "test_gcd_function 2 2
     (\<lambda>a b kwargs. Inr (Dict [''a'' \<mapsto> PInt a, ''b'' \<mapsto> PInt b, ''gcd'' \<mapsto> PInt 0,
        ''Termination Message'' \<mapsto> PStr ''Model was solved to optimality'']))
     (Atom (PStr ''cbc''))
   = Inl (KeyError ''termination_message'')"
  by code_simp




end
